theory Spec2Isabelle
  imports Complex_Main
begin

section \<open>Snake game: a shallow embedding of snake.js\<close>

text \<open>
  The game of \<^verbatim>\<open>snake.js\<close>: points, pellets, the snake classes and the game with
  its tick. Mutation of \<^verbatim>\<open>this\<close> is explicit state passing: a method takes the
  object and returns the updated one. Directions are the strings of the source.
  \<^verbatim>\<open>Math.random()\<close> is a sequence \<open>rnd :: nat \<Rightarrow> real\<close> of draws together with the
  index of the next draw; the products and \<^verbatim>\<open>Math.floor\<close> are computed exactly.
  Drawing on the canvas and \<^verbatim>\<open>console.log\<close> do not change the game and are left out.
\<close>

subsection \<open>Constants\<close>

definition WIDTH :: int where
  "WIDTH = 30"

definition HEIGHT :: int where
  "HEIGHT = 30"

definition MAX_SNAKE_GROWTH :: int where
  "MAX_SNAKE_GROWTH = 6"

definition GAME_DELAY_MS :: nat where
  "GAME_DELAY_MS = 400"

text \<open>What a method can end with other than a return value. \<open>TypeError\<close> is the
  exception JavaScript throws on reading a property of \<^verbatim>\<open>undefined\<close>.
  \<open>NoDirection\<close> marks the place where the source goes on with \<^verbatim>\<open>null\<close> or
  \<^verbatim>\<open>undefined\<close> stored in the snake (the direction is none of the four
  direction strings): the records below cannot hold such a snake.\<close>

datatype error = TypeError | NoDirection

subsection \<open>Point\<close>

record Point =
  x :: int
  y :: int

definition new_Point :: "int \<Rightarrow> int \<Rightarrow> Point" where
  "new_Point a b = \<lparr>x = a, y = b\<rparr>"

text \<open>\<^verbatim>\<open>randRange(low, hi)\<close> of \<^verbatim>\<open>Point.newRandom\<close>, on the draw \<open>r\<close>.\<close>

definition randRange :: "int \<Rightarrow> int \<Rightarrow> real \<Rightarrow> int" where
  "randRange low hi r = low + \<lfloor>r * real_of_int (hi - low)\<rfloor>"

text \<open>\<^verbatim>\<open>Point.newRandom()\<close>: the first draw gives x, the second y.\<close>

definition Point_newRandom :: "real \<Rightarrow> real \<Rightarrow> Point" where
  "Point_newRandom r1 r2 = new_Point (randRange 1 WIDTH r1) (randRange 1 HEIGHT r2)"

definition isOutOfBound :: "Point \<Rightarrow> bool" where
  "isOutOfBound p \<longleftrightarrow> (x p \<le> 0 \<or> x p \<ge> WIDTH \<or> y p \<le> 0 \<or> y p \<ge> HEIGHT)"

subsection \<open>Pellet\<close>

record Pellet =
  pt :: Point

definition new_Pellet :: "int \<Rightarrow> int \<Rightarrow> Pellet" where
  "new_Pellet a b = \<lparr>pt = new_Point a b\<rparr>"

definition Pellet_newRandom :: "real \<Rightarrow> real \<Rightarrow> Pellet" where
  "Pellet_newRandom r1 r2 = (let p = Point_newRandom r1 r2 in new_Pellet (x p) (y p))"

text \<open>JavaScript is untyped: a method reads the properties of whatever object it is
  given. The objects that reach \<^verbatim>\<open>Snake.contains\<close> are points and pellets. A point
  has the properties \<^verbatim>\<open>x\<close> and \<^verbatim>\<open>y\<close>; a pellet has the single property
  \<^verbatim>\<open>pt\<close>, so that reading \<^verbatim>\<open>x\<close> or \<^verbatim>\<open>y\<close> of a pellet gives
  \<^verbatim>\<open>undefined\<close> (\<open>None\<close>).\<close>

datatype jsobject = PointObj Point | PelletObj Pellet

fun get_x :: "jsobject \<Rightarrow> int option" where
  "get_x (PointObj p) = Some (x p)"
| "get_x (PelletObj f) = None"

fun get_y :: "jsobject \<Rightarrow> int option" where
  "get_y (PointObj p) = Some (y p)"
| "get_y (PelletObj f) = None"

subsection \<open>Snake and its subclasses\<close>

datatype SnakeClass = BaseSnake | RandomGrowthSnake | ImpatientSnake

text \<open>One record for the three classes; \<open>cls\<close> is the class of the object, which
  selects the overriding methods. \<open>pastMoves\<close> and \<open>sameMoves\<close> are the fields the
  constructor of \<^verbatim>\<open>ImpatientSnake\<close> adds; only its methods read them.\<close>

record Snake =
  cls :: SnakeClass
  color :: string
  keymap :: "string \<rightharpoonup> string"
  parts :: "Point list"
  dir :: string
  nextDir :: string
  growBy :: nat
  pastMoves :: "string list"
  sameMoves :: nat

definition new_Snake :: "string \<Rightarrow> (string \<rightharpoonup> string) \<Rightarrow> Point \<Rightarrow> string \<Rightarrow> Snake" where
  "new_Snake c km start d =
     \<lparr>cls = BaseSnake, color = c, keymap = km, parts = [start], dir = d, nextDir = d,
      growBy = 0, pastMoves = [], sameMoves = 0\<rparr>"

definition new_RandomGrowthSnake ::
  "string \<Rightarrow> (string \<rightharpoonup> string) \<Rightarrow> Point \<Rightarrow> string \<Rightarrow> Snake" where
  "new_RandomGrowthSnake c km start d = (new_Snake c km start d)\<lparr>cls := RandomGrowthSnake\<rparr>"

definition new_ImpatientSnake ::
  "string \<Rightarrow> (string \<rightharpoonup> string) \<Rightarrow> Point \<Rightarrow> string \<Rightarrow> Snake" where
  "new_ImpatientSnake c km start d =
     (new_Snake c km start d)\<lparr>cls := ImpatientSnake, pastMoves := [d], sameMoves := 8\<rparr>"

text \<open>\<^verbatim>\<open>contains(pt)\<close>: \<^verbatim>\<open>me.x === pt.x && me.y === pt.y\<close> for some part.\<close>

definition contains :: "Snake \<Rightarrow> jsobject \<Rightarrow> bool" where
  "contains s ob = list_ex (\<lambda>me. Some (x me) = get_x ob \<and> Some (y me) = get_y ob) (parts s)"

text \<open>\<^verbatim>\<open>head()\<close> is \<^verbatim>\<open>this.parts[0]\<close>: \<^verbatim>\<open>undefined\<close> on the empty array.\<close>

definition head :: "Snake \<Rightarrow> Point option" where
  "head s = (case parts s of [] \<Rightarrow> None | p # ps \<Rightarrow> Some p)"

definition checkCrashIntoWall :: "Snake \<Rightarrow> error + bool" where
  "checkCrashIntoWall s =
     (case head s of None \<Rightarrow> Inl TypeError | Some h \<Rightarrow> Inr (isOutOfBound h))"

text \<open>With no head the body \<^verbatim>\<open>parts.slice(1)\<close> is empty and the head is never
  read.\<close>

definition checkCrashIntoSelf :: "Snake \<Rightarrow> bool" where
  "checkCrashIntoSelf s =
     (let snakeBody = drop 1 (parts s)
      in case head s of
           None \<Rightarrow> False
         | Some h \<Rightarrow> list_ex (\<lambda>me. x me = x h \<and> y me = y h) snakeBody)"

text \<open>\<^verbatim>\<open>arr.slice(start)\<close> of JavaScript: a negative start counts from the end.\<close>

definition js_slice :: "int \<Rightarrow> 'a list \<Rightarrow> 'a list" where
  "js_slice start xs =
     (let len = int (length xs);
          k = (if start < 0 then max (len + start) 0 else min start len)
      in drop (nat k) xs)"

definition checkPastMovesAllSame :: "Snake \<Rightarrow> bool" where
  "checkPastMovesAllSame s =
     (let start = int (length (pastMoves s)) - int (sameMoves s);
          pastEightMoves = js_slice start (pastMoves s)
      in case pastEightMoves of
           [] \<Rightarrow> True
         | d0 # ds \<Rightarrow> list_all (\<lambda>d. d = d0) pastEightMoves)"

text \<open>\<^verbatim>\<open>randomMove(nextDir)\<close> on the draw \<open>r\<close>; \<open>None\<close> is the \<^verbatim>\<open>null\<close> it
  returns for a string that is no direction.\<close>

definition randomMove :: "string \<Rightarrow> real \<Rightarrow> string option" where
  "randomMove nd r =
     (let randomMove = 1 + \<lfloor>r * 2\<rfloor>
      in if nd = ''left'' \<or> nd = ''right''
         then Some (if randomMove = 1 then ''up'' else ''down'')
         else if nd = ''up'' \<or> nd = ''down''
         then Some (if randomMove = 1 then ''left'' else ''right'')
         else None)"

text \<open>\<^verbatim>\<open>determineNextMove()\<close>, with the override of \<^verbatim>\<open>ImpatientSnake\<close>. The
  result carries the index of the next unused draw.\<close>

definition determineNextMove :: "(nat \<Rightarrow> real) \<Rightarrow> nat \<Rightarrow> Snake \<Rightarrow> error + (Snake \<times> nat)" where
  "determineNextMove rnd i s =
     (if cls s = ImpatientSnake then
        (if length (pastMoves s) \<ge> sameMoves s \<and> checkPastMovesAllSame s then
           (case randomMove (nextDir s) (rnd i) of
              None \<Rightarrow> Inl NoDirection
            | Some d \<Rightarrow>
                (let s1 = s\<lparr>nextDir := d\<rparr>;
                     s2 = s1\<lparr>dir := nextDir s1\<rparr>
                 in Inr (s2\<lparr>pastMoves := pastMoves s2 @ [dir s2]\<rparr>, i + 1)))
         else
           (let s2 = s\<lparr>dir := nextDir s\<rparr>
            in Inr (s2\<lparr>pastMoves := pastMoves s2 @ [dir s2]\<rparr>, i)))
      else Inr (s\<lparr>dir := nextDir s\<rparr>, i))"

text \<open>The new head of \<^verbatim>\<open>move()\<close>: the four \<^verbatim>\<open>if\<close> statements in their order,
  starting from the unassigned \<^verbatim>\<open>pt\<close>. Coordinates are integers; \<open>x + 1\<close> and
  \<open>x - 1\<close> are those of the program as long as \<open>x\<close> is a safe integer (below
  \<open>2 ^ 53\<close> in absolute value), beyond which the doubles of JavaScript round.\<close>

definition newHead :: "string \<Rightarrow> Point \<Rightarrow> Point option" where
  "newHead d h =
     (let pt0 = None;
          pt1 = (if d = ''left'' then Some (new_Point (x h - 1) (y h)) else pt0);
          pt2 = (if d = ''right'' then Some (new_Point (x h + 1) (y h)) else pt1);
          pt3 = (if d = ''up'' then Some (new_Point (x h) (y h - 1)) else pt2);
          pt4 = (if d = ''down'' then Some (new_Point (x h) (y h + 1)) else pt3)
      in pt4)"

text \<open>\<^verbatim>\<open>move()\<close>. Destructuring the head of an empty body throws. With a
  direction that is none of the four strings \<^verbatim>\<open>undefined\<close> is put in front of
  the body (\<open>NoDirection\<close>).\<close>

definition move :: "(nat \<Rightarrow> real) \<Rightarrow> nat \<Rightarrow> Snake \<Rightarrow> error + (Snake \<times> nat)" where
  "move rnd i s =
     (case head s of
        None \<Rightarrow> Inl TypeError
      | Some h \<Rightarrow>
          (case determineNextMove rnd i s of
             Inl e \<Rightarrow> Inl e
           | Inr (s1, i1) \<Rightarrow>
               (case newHead (dir s1) h of
                  None \<Rightarrow> Inl NoDirection
                | Some p \<Rightarrow>
                    (let s2 = s1\<lparr>parts := p # parts s1\<rparr>
                     in if growBy s2 = 0
                        then Inr (s2\<lparr>parts := butlast (parts s2)\<rparr>, i1)
                        else Inr (s2\<lparr>growBy := growBy s2 - 1\<rparr>, i1)))))"

text \<open>\<^verbatim>\<open>checkIsNinetyDegree(nextDir)\<close>; \<open>None\<close> is the \<^verbatim>\<open>undefined\<close> of falling
  off the end of the function.\<close>

definition checkIsNinetyDegree :: "Snake \<Rightarrow> string \<Rightarrow> bool option" where
  "checkIsNinetyDegree s nd =
     (if dir s = ''left'' \<or> dir s = ''right'' then Some (nd = ''up'' \<or> nd = ''down'')
      else if dir s = ''up'' \<or> dir s = ''down'' then Some (nd = ''left'' \<or> nd = ''right'')
      else None)"

definition changeDir :: "string \<Rightarrow> Snake \<Rightarrow> Snake" where
  "changeDir d s = s\<lparr>nextDir := d\<rparr>"

text \<open>\<^verbatim>\<open>handleKey(key)\<close>: a key that is not in the keymap gives \<^verbatim>\<open>undefined\<close>;
  the condition is true when the check returned \<^verbatim>\<open>true\<close>.\<close>

definition handleKey :: "string \<Rightarrow> Snake \<Rightarrow> Snake" where
  "handleKey key s =
     (let direction = keymap s key
      in case direction of
           None \<Rightarrow> s
         | Some d \<Rightarrow> if checkIsNinetyDegree s d = Some True then changeDir d s else s)"

text \<open>\<^verbatim>\<open>growSnakeBy()\<close>: 2 in \<^verbatim>\<open>Snake\<close>, a random amount in
  \<^verbatim>\<open>RandomGrowthSnake\<close>.\<close>

definition growSnakeBy :: "(nat \<Rightarrow> real) \<Rightarrow> nat \<Rightarrow> Snake \<Rightarrow> Snake \<times> nat" where
  "growSnakeBy rnd i s =
     (if cls s = RandomGrowthSnake then
        (let randomGrowth = \<lfloor>rnd i * real_of_int MAX_SNAKE_GROWTH\<rfloor>
         in (s\<lparr>growBy := growBy s + nat randomGrowth\<rparr>, i + 1))
      else (s\<lparr>growBy := growBy s + 2\<rparr>, i))"

text \<open>\<^verbatim>\<open>eats(food)\<close>: the first pellet under the head, if any; the snake then
  starts growing. With no head, the callback of \<^verbatim>\<open>find\<close> throws on the first
  pellet.\<close>

definition eats :: "(nat \<Rightarrow> real) \<Rightarrow> nat \<Rightarrow> Pellet list \<Rightarrow> Snake \<Rightarrow> error + (Snake \<times> Pellet option \<times> nat)" where
  "eats rnd i fd s =
     (case head s of
        None \<Rightarrow> (if fd = [] then Inr (s, None, i) else Inl TypeError)
      | Some h \<Rightarrow>
          (let pellet = find (\<lambda>f. x (pt f) = x h \<and> y (pt f) = y h) fd
           in case pellet of
                None \<Rightarrow> Inr (s, None, i)
              | Some p \<Rightarrow> (let (s1, i1) = growSnakeBy rnd i s in Inr (s1, Some p, i1))))"

subsection \<open>The browser: event listeners and interval timers\<close>

text \<open>The part of the browser that \<^verbatim>\<open>Game.start\<close> and \<^verbatim>\<open>Game.tick\<close> use. A
  listener is identified by its target, its event type and its function object;
  \<^verbatim>\<open>removeEventListener\<close> removes the listener with exactly these three. The
  function objects of the program are the methods \<^verbatim>\<open>keyListener\<close> and
  \<^verbatim>\<open>tick\<close> of the class (\<open>Proto\<close>) and the functions made from them by
  \<^verbatim>\<open>bind(this)\<close>; every call of \<^verbatim>\<open>bind\<close> makes a new function object, which
  \<open>Bound\<close> numbers.\<close>

datatype target = Document | Window

datatype classMethod = KeyListenerMethod | TickMethod

datatype func = Proto classMethod | Bound nat classMethod

record Browser =
  listeners :: "(target \<times> string \<times> func) list"
  intervals :: "(nat \<times> func \<times> nat) list"
  nextFunc :: nat
  nextTimer :: nat

definition new_Browser :: Browser where
  "new_Browser = \<lparr>listeners = [], intervals = [], nextFunc = 0, nextTimer = 1\<rparr>"

definition bind :: "classMethod \<Rightarrow> Browser \<Rightarrow> func \<times> Browser" where
  "bind m b = (Bound (nextFunc b) m, b\<lparr>nextFunc := nextFunc b + 1\<rparr>)"

definition addEventListener :: "target \<Rightarrow> string \<Rightarrow> func \<Rightarrow> Browser \<Rightarrow> Browser" where
  "addEventListener t ty f b =
     (if (t, ty, f) \<in> set (listeners b) then b
      else b\<lparr>listeners := listeners b @ [(t, ty, f)]\<rparr>)"

definition removeEventListener :: "target \<Rightarrow> string \<Rightarrow> func \<Rightarrow> Browser \<Rightarrow> Browser" where
  "removeEventListener t ty f b = b\<lparr>listeners := filter (\<lambda>l. l \<noteq> (t, ty, f)) (listeners b)\<rparr>"

definition setInterval :: "func \<Rightarrow> nat \<Rightarrow> Browser \<Rightarrow> nat \<times> Browser" where
  "setInterval f ms b =
     (nextTimer b,
      b\<lparr>intervals := intervals b @ [(nextTimer b, f, ms)], nextTimer := nextTimer b + 1\<rparr>)"

text \<open>\<^verbatim>\<open>clearInterval(id)\<close>; \<open>None\<close> is the \<^verbatim>\<open>null\<close> of a game not started.\<close>

definition clearInterval :: "nat option \<Rightarrow> Browser \<Rightarrow> Browser" where
  "clearInterval tid b =
     (case tid of
        None \<Rightarrow> b
      | Some n \<Rightarrow> b\<lparr>intervals := filter (\<lambda>t. fst t \<noteq> n) (intervals b)\<rparr>)"

subsection \<open>Game\<close>

record Game =
  snake :: Snake
  food :: "Pellet list"
  numFood :: nat
  timerId :: "nat option"

definition new_Game :: "Snake \<Rightarrow> nat \<Rightarrow> Game" where
  "new_Game s n = \<lparr>snake = s, food = [], numFood = n, timerId = None\<rparr>"

text \<open>\<^verbatim>\<open>start()\<close>: the listener goes to \<^verbatim>\<open>document\<close>, the timer to
  \<^verbatim>\<open>window\<close>; both callbacks are made by \<^verbatim>\<open>bind\<close>.\<close>

definition start :: "Game \<Rightarrow> Browser \<Rightarrow> Game \<times> Browser" where
  "start g b =
     (let (f1, b1) = bind KeyListenerMethod b;
          b2 = addEventListener Document ''keydown'' f1 b1;
          (f2, b3) = bind TickMethod b2;
          (tid, b4) = setInterval f2 GAME_DELAY_MS b3
      in (g\<lparr>timerId := Some tid\<rparr>, b4))"

text \<open>\<^verbatim>\<open>isPelletOnSnake(pellet)\<close> passes the pellet itself to
  \<^verbatim>\<open>contains\<close>.\<close>

definition isPelletOnSnake :: "Game \<Rightarrow> Pellet \<Rightarrow> bool" where
  "isPelletOnSnake g pellet = contains (snake g) (PelletObj pellet)"

text \<open>\<^verbatim>\<open>refillFood()\<close>: the loop has no bound on its number of rounds, so the
  result is optional and \<open>None\<close> is the loop that never ends. Each round takes two
  draws.\<close>

partial_function (option) refillFood :: "(nat \<Rightarrow> real) \<Rightarrow> nat \<Rightarrow> Game \<Rightarrow> (Game \<times> nat) option" where
  "refillFood rnd i g =
     (if length (food g) < numFood g then
        (let newPellet = Pellet_newRandom (rnd i) (rnd (i + 1))
         in refillFood rnd (i + 2)
              (if isPelletOnSnake g newPellet = False
               then g\<lparr>food := food g @ [newPellet]\<rparr> else g))
      else Some (g, i))"

definition keyListener :: "string \<Rightarrow> Game \<Rightarrow> Game" where
  "keyListener key g = g\<lparr>snake := handleKey key (snake g)\<rparr>"

definition removeFood :: "Pellet \<Rightarrow> Game \<Rightarrow> Game" where
  "removeFood pellet g =
     g\<lparr>food := filter (\<lambda>f. x (pt f) \<noteq> x (pt pellet) \<and> y (pt f) \<noteq> y (pt pellet)) (food g)\<rparr>"

text \<open>\<^verbatim>\<open>tick()\<close>, on the game, the browser and the index of the next draw. The
  result is \<open>None\<close> when the refill never ends and \<open>Inl\<close> when the tick throws:
  after a move that put \<^verbatim>\<open>undefined\<close> in front of the body, drawing the snake
  throws a \<^verbatim>\<open>TypeError\<close>.\<close>

definition tick :: "(nat \<Rightarrow> real) \<Rightarrow> Game \<times> Browser \<times> nat \<Rightarrow> (error + Game \<times> Browser \<times> nat) option" where
  "tick rnd w =
     (case w of (g, b, i) \<Rightarrow>
        (case checkCrashIntoWall (snake g) of
           Inl e \<Rightarrow> Some (Inl e)
         | Inr wall \<Rightarrow>
             (let isDead = (wall \<or> checkCrashIntoSelf (snake g))
              in if isDead then
                   (let b1 = clearInterval (timerId g) b;
                        b2 = removeEventListener Window ''keydown'' (Proto KeyListenerMethod) b1
                    in Some (Inr (g, b2, i)))
                 else
                   (case move rnd i (snake g) of
                      Inl e \<Rightarrow> Some (Inl TypeError)
                    | Inr (s1, i1) \<Rightarrow>
                        (case eats rnd i1 (food g) s1 of
                           Inl e \<Rightarrow> Some (Inl e)
                         | Inr (s2, pellet, i2) \<Rightarrow>
                             (let g1 = g\<lparr>snake := s2\<rparr>;
                                  g2 = (case pellet of None \<Rightarrow> g1 | Some p \<Rightarrow> removeFood p g1)
                              in case refillFood rnd i2 g2 of
                                   None \<Rightarrow> None
                                 | Some (g3, i3) \<Rightarrow> Some (Inr (g3, b, i3))))))))"

subsection \<open>Events\<close>

text \<open>What the browser does to the game between and at the ticks: a timer fires, or
  a key goes down. A \<^verbatim>\<open>keydown\<close> event reaches the listeners of the document and
  then those of the window. A function made by \<^verbatim>\<open>bind(this)\<close> runs the method on
  the game; the method itself, called by the browser, has no game as \<^verbatim>\<open>this\<close>
  and throws on \<^verbatim>\<open>this.snake\<close>. A run ends at the first exception.\<close>

datatype event = TimerFires nat | KeyDown string

fun invoke :: "(nat \<Rightarrow> real) \<Rightarrow> func \<Rightarrow> string option \<Rightarrow> Game \<times> Browser \<times> nat \<Rightarrow> (error + Game \<times> Browser \<times> nat) option" where
  "invoke rnd (Proto m) arg w = Some (Inl TypeError)"
| "invoke rnd (Bound n TickMethod) arg w = tick rnd w"
| "invoke rnd (Bound n KeyListenerMethod) None w = Some (Inl TypeError)"
| "invoke rnd (Bound n KeyListenerMethod) (Some key) (g, b, i) = Some (Inr (keyListener key g, b, i))"

fun invokeAll :: "(nat \<Rightarrow> real) \<Rightarrow> func list \<Rightarrow> string option \<Rightarrow> Game \<times> Browser \<times> nat \<Rightarrow> (error + Game \<times> Browser \<times> nat) option" where
  "invokeAll rnd [] arg w = Some (Inr w)"
| "invokeAll rnd (f # fs) arg w =
     (case invoke rnd f arg w of
        None \<Rightarrow> None
      | Some (Inl e) \<Rightarrow> Some (Inl e)
      | Some (Inr w1) \<Rightarrow> invokeAll rnd fs arg w1)"

definition listenersOf :: "target \<Rightarrow> string \<Rightarrow> Browser \<Rightarrow> func list" where
  "listenersOf t ty b = map (\<lambda>l. snd (snd l)) (filter (\<lambda>l. fst l = t \<and> fst (snd l) = ty) (listeners b))"

fun step :: "(nat \<Rightarrow> real) \<Rightarrow> event \<Rightarrow> Game \<times> Browser \<times> nat \<Rightarrow> (error + Game \<times> Browser \<times> nat) option" where
  "step rnd (TimerFires n) (g, b, i) =
     invokeAll rnd (map (\<lambda>t. fst (snd t)) (filter (\<lambda>t. fst t = n) (intervals b))) None (g, b, i)"
| "step rnd (KeyDown key) (g, b, i) =
     invokeAll rnd (listenersOf Document ''keydown'' b @ listenersOf Window ''keydown'' b)
       (Some key) (g, b, i)"

fun run :: "(nat \<Rightarrow> real) \<Rightarrow> event list \<Rightarrow> Game \<times> Browser \<times> nat \<Rightarrow> (error + Game \<times> Browser \<times> nat) option" where
  "run rnd [] w = Some (Inr w)"
| "run rnd (ev # evs) w =
     (case step rnd ev w of
        None \<Rightarrow> None
      | Some (Inl e) \<Rightarrow> Some (Inl e)
      | Some (Inr w1) \<Rightarrow> run rnd evs w1)"

subsection \<open>The program's set-up and the vocabulary of the specification\<close>

text \<open>The keymap of \<^verbatim>\<open>snake1\<close>, the snake the program plays with.\<close>

definition snake1_keymap :: "string \<rightharpoonup> string" where
  "snake1_keymap =
     map_of [(''ArrowLeft'', ''left''), (''ArrowRight'', ''right''),
             (''ArrowUp'', ''up''), (''ArrowDown'', ''down'')]"

text \<open>The snake of the specification's scenario: body (5,5), (4,5), (3,5), moving
  right.\<close>

definition scenario_snake :: Snake where
  "scenario_snake =
     (new_Snake ''yellow'' snake1_keymap (new_Point 5 5) ''right'')
       \<lparr>parts := [new_Point 5 5, new_Point 4 5, new_Point 3 5]\<rparr>"

text \<open>The specification's words for directions: horizontal and vertical ones, turns
  by ninety degrees, and the reverse of a direction.\<close>

definition horizontal :: "string \<Rightarrow> bool" where
  "horizontal d \<longleftrightarrow> d = ''left'' \<or> d = ''right''"

definition vertical :: "string \<Rightarrow> bool" where
  "vertical d \<longleftrightarrow> d = ''up'' \<or> d = ''down''"

definition cardinal :: "string \<Rightarrow> bool" where
  "cardinal d \<longleftrightarrow> horizontal d \<or> vertical d"

definition perpendicular :: "string \<Rightarrow> string \<Rightarrow> bool" where
  "perpendicular cur req \<longleftrightarrow> (horizontal cur \<and> vertical req) \<or> (vertical cur \<and> horizontal req)"

definition reverseOf :: "string \<Rightarrow> string option" where
  "reverseOf d =
     (if d = ''left'' then Some ''right'' else if d = ''right'' then Some ''left''
      else if d = ''up'' then Some ''down'' else if d = ''down'' then Some ''up'' else None)"

text \<open>The specification's offset of a cell by one step in a direction.\<close>

definition offset :: "string \<Rightarrow> Point \<Rightarrow> Point" where
  "offset d h =
     (if d = ''left'' then new_Point (x h - 1) (y h)
      else if d = ''right'' then new_Point (x h + 1) (y h)
      else if d = ''up'' then new_Point (x h) (y h - 1)
      else new_Point (x h) (y h + 1))"

text \<open>The program's snake: \<^verbatim>\<open>snake1\<close> is an impatient snake at (20,20) moving
  right; \<open>start_snake\<close> is a plain snake at the same place.\<close>

definition snake1 :: Snake where
  "snake1 = new_ImpatientSnake ''yellow'' snake1_keymap (new_Point 20 20) ''right''"


text \<open>The specification's window of the last \<open>n\<close> entries of the history, and a
  window whose entries are all the same.\<close>

definition window :: "nat \<Rightarrow> 'a list \<Rightarrow> 'a list" where
  "window n xs = drop (length xs - n) xs"

definition allIdentical :: "'a list \<Rightarrow> bool" where
  "allIdentical w \<longleftrightarrow> (\<forall>a \<in> set w. \<forall>b \<in> set w. a = b)"

text \<open>Draws that are all one quarter.\<close>

definition quarter_draws :: "nat \<Rightarrow> real" where
  "quarter_draws n = 1 / 4"

text \<open>An impatient snake that started at (20,28) moving right, turned up at once,
  has moved up eight times and has then been asked to turn left.\<close>

definition bored_snake :: Snake where
  "bored_snake =
     \<lparr>cls = ImpatientSnake, color = ''yellow'', keymap = snake1_keymap,
      parts = [new_Point 20 20], dir = ''up'', nextDir = ''left'', growBy = 0,
      pastMoves = [''right'', ''up'', ''up'', ''up'', ''up'', ''up'', ''up'', ''up'', ''up''],
      sameMoves = 8\<rparr>"

text \<open>A number of moves of the snake, one after the other.\<close>

fun moves :: "(nat \<Rightarrow> real) \<Rightarrow> nat \<Rightarrow> nat \<Rightarrow> Snake \<Rightarrow> error + (Snake \<times> nat)" where
  "moves rnd 0 i s = Inr (s, i)"
| "moves rnd (Suc n) i s =
     (case move rnd i s of Inl e \<Rightarrow> Inl e | Inr (s1, i1) \<Rightarrow> moves rnd n i1 s1)"

text \<open>The program's game: \<^verbatim>\<open>new Game(snake1)\<close>, with three pellets to keep on
  the board.\<close>

definition game :: Game where
  "game = new_Game snake1 3"

text \<open>Draws for three pellets, at (20,20), (10,10) and (5,5), and draws that are all
  one third, each pellet at (10,10).\<close>

definition head_draws :: "nat \<Rightarrow> real" where
  "head_draws n = (if n < 2 then 2 / 3 else if n < 4 then 1 / 3 else 1 / 6)"

definition third_draws :: "nat \<Rightarrow> real" where
  "third_draws n = 1 / 3"

text \<open>The condition of \<^verbatim>\<open>tick\<close> for the end of the game,
  \<^verbatim>\<open>checkCrashIntoWall() || checkCrashIntoSelf()\<close>, when it is true.\<close>

definition crashed :: "Snake \<Rightarrow> bool" where
  "crashed s \<longleftrightarrow>
     checkCrashIntoWall s = Inr True \<or> (checkCrashIntoWall s = Inr False \<and> checkCrashIntoSelf s)"

text \<open>What \<^verbatim>\<open>tick\<close> does to the browser when the game ends.\<close>

definition stopBrowser :: "Game \<Rightarrow> Browser \<Rightarrow> Browser" where
  "stopBrowser g b =
     removeEventListener Window ''keydown'' (Proto KeyListenerMethod) (clearInterval (timerId g) b)"

text \<open>A browser in which every listener is a bound \<^verbatim>\<open>keyListener\<close> and every
  timer a bound \<^verbatim>\<open>tick\<close>, as \<^verbatim>\<open>start\<close> registers them.\<close>

fun isBoundKeyListener :: "func \<Rightarrow> bool" where
  "isBoundKeyListener (Bound n KeyListenerMethod) = True"
| "isBoundKeyListener f = False"

fun isBoundTick :: "func \<Rightarrow> bool" where
  "isBoundTick (Bound n TickMethod) = True"
| "isBoundTick f = False"

definition bound_callbacks :: "Browser \<Rightarrow> bool" where
  "bound_callbacks b \<longleftrightarrow>
     list_all (\<lambda>l. isBoundKeyListener (snd (snd l))) (listeners b) \<and>
     list_all (\<lambda>t. isBoundTick (fst (snd t))) (intervals b)"

text \<open>A snake whose head is on the right wall, and its game once started in a new
  browser.\<close>

definition wall_snake :: Snake where
  "wall_snake = new_Snake ''yellow'' snake1_keymap (new_Point 30 20) ''right''"

definition started_game :: "Game \<times> Browser" where
  "started_game = start (new_Game wall_snake 3) new_Browser"

text \<open>The snakes of the game: a body with at least one part and, as directions, two
  of the four direction strings.\<close>

definition wellFormed :: "Snake \<Rightarrow> bool" where
  "wellFormed s \<longleftrightarrow> parts s \<noteq> [] \<and> cardinal (dir s) \<and> cardinal (nextDir s)"



section \<open>Properties\<close>

subsection \<open>The board\<close>

text \<open>C9: \<open>isOutOfBound\<close> is true exactly when x is at most 0 or at least WIDTH, or y
  is at most 0 or at least HEIGHT; it is false exactly for the points with both
  coordinates strictly between 0 and the dimension.\<close>

theorem isOutOfBound_iff:
  "(isOutOfBound p \<longleftrightarrow> x p \<le> 0 \<or> x p \<ge> WIDTH \<or> y p \<le> 0 \<or> y p \<ge> HEIGHT) \<and>
   (\<not> isOutOfBound p \<longleftrightarrow> 0 < x p \<and> x p < WIDTH \<and> 0 < y p \<and> y p < HEIGHT)"
  by (auto simp: isOutOfBound_def)

theorem isOutOfBound_iff_witness:
  "isOutOfBound (new_Point 0 15) \<and> isOutOfBound (new_Point 30 15) \<and> isOutOfBound (new_Point 15 30)
   \<and> \<not> isOutOfBound (new_Point 1 29)"
  using isOutOfBound_iff [of "new_Point 0 15"] isOutOfBound_iff [of "new_Point 30 15"]
    isOutOfBound_iff [of "new_Point 15 30"] isOutOfBound_iff [of "new_Point 1 29"]
  by (simp add: new_Point_def WIDTH_def HEIGHT_def)

subsection \<open>Removing food\<close>

text \<open>C1: \<open>removeFood p\<close> should remove the pellets at the position of \<open>p\<close> and keep
  every pellet at another position. The filter of the source keeps a pellet only when
  it differs from \<open>p\<close> in x and in y: with pellets at (5,5), (5,9) and (7,8) on the
  board, removing the pellet at (5,5) also removes the one at (5,9), which is in the
  same column.\<close>

theorem removeFood_takes_row_and_column:
  "food (removeFood (new_Pellet 5 5)
      ((new_Game scenario_snake 3)\<lparr>food := [new_Pellet 5 5, new_Pellet 5 9, new_Pellet 7 8]\<rparr>))
    = [new_Pellet 7 8]"
  by (simp add: removeFood_def new_Pellet_def new_Point_def new_Game_def)

subsection \<open>Keys\<close>

lemma handleKey_char:
  "handleKey key s =
     (case keymap s key of None \<Rightarrow> s
      | Some d \<Rightarrow> if perpendicular (dir s) d then s\<lparr>nextDir := d\<rparr> else s)"
  by (auto simp: handleKey_def checkIsNinetyDegree_def changeDir_def perpendicular_def
      horizontal_def vertical_def split: option.splits)

text \<open>C2, as the specification states it: after the accepted turn up, the request for
  down is rejected and \<open>nextDir\<close> stays up. On the scenario's snake the second
  request is accepted: \<open>nextDir\<close> is no longer up.\<close>

theorem second_turn_accepted:
  "nextDir (handleKey ''ArrowUp'' scenario_snake) = ''up'' \<and>
   nextDir (handleKey ''ArrowDown'' (handleKey ''ArrowUp'' scenario_snake)) \<noteq> ''up''"
  by (simp add: handleKey_char scenario_snake_def new_Snake_def snake1_keymap_def perpendicular_def
      horizontal_def vertical_def)

text \<open>C2, amended: for a snake with body (5,5), (4,5), (3,5) moving right, a request
  to turn up is accepted and sets \<open>nextDir\<close> to up, leaving \<open>dir\<close> at right. A second
  request, for down, before the next tick is checked against \<open>dir\<close> (right), not
  against the \<open>nextDir\<close> just set, so it is accepted too: \<open>nextDir\<close> ends as down and
  nothing else has changed.\<close>

theorem second_turn_checked_against_dir:
  assumes "parts s = [new_Point 5 5, new_Point 4 5, new_Point 3 5]"
    and "dir s = ''right''"
    and "keymap s k1 = Some ''up''"
    and "keymap s k2 = Some ''down''"
  shows "nextDir (handleKey k1 s) = ''up'' \<and> dir (handleKey k1 s) = ''right'' \<and>
    checkIsNinetyDegree (handleKey k1 s) ''down'' = Some True \<and>
    handleKey k2 (handleKey k1 s) = s\<lparr>nextDir := ''down''\<rparr>"
  using assms
  by (simp add: handleKey_def checkIsNinetyDegree_def changeDir_def)

theorem second_turn_checked_against_dir_witness:
  "parts scenario_snake = [new_Point 5 5, new_Point 4 5, new_Point 3 5] \<and>
   dir scenario_snake = ''right'' \<and>
   keymap scenario_snake ''ArrowUp'' = Some ''up'' \<and>
   keymap scenario_snake ''ArrowDown'' = Some ''down'' \<and>
   nextDir (handleKey ''ArrowUp'' scenario_snake) = ''up'' \<and>
   nextDir (handleKey ''ArrowDown'' (handleKey ''ArrowUp'' scenario_snake)) = ''down''"
proof -
  have a: "parts scenario_snake = [new_Point 5 5, new_Point 4 5, new_Point 3 5]"
    and b: "dir scenario_snake = ''right''"
    and c: "keymap scenario_snake ''ArrowUp'' = Some ''up''"
    and d: "keymap scenario_snake ''ArrowDown'' = Some ''down''"
    by (simp_all add: scenario_snake_def new_Snake_def snake1_keymap_def)
  from second_turn_checked_against_dir [OF a b c d] a b c d show ?thesis
    by simp
qed

text \<open>C5: \<open>handleKey\<close> changes the snake only when the key is in the keymap and the
  direction it maps to is perpendicular to the current \<open>dir\<close> (up or down while moving
  left or right, left or right while moving up or down). An accepted request sets
  \<open>nextDir\<close> and nothing else; \<open>dir\<close> is never changed. A key that is not mapped, the
  current direction and its reverse leave the snake as it is.\<close>

theorem handleKey_only_perpendicular:
  "handleKey key s =
     (case keymap s key of None \<Rightarrow> s
      | Some d \<Rightarrow> if perpendicular (dir s) d then s\<lparr>nextDir := d\<rparr> else s) \<and>
   dir (handleKey key s) = dir s \<and>
   (handleKey key s \<noteq> s \<longrightarrow>
      (\<exists>d. keymap s key = Some d \<and> perpendicular (dir s) d \<and> handleKey key s = s\<lparr>nextDir := d\<rparr>)) \<and>
   (keymap s key = None \<longrightarrow> handleKey key s = s) \<and>
   (\<forall>d. keymap s key = Some d \<and> (d = dir s \<or> reverseOf (dir s) = Some d) \<longrightarrow> handleKey key s = s)"
proof -
  have "\<not> perpendicular c c" for c
    by (auto simp: perpendicular_def horizontal_def vertical_def)
  moreover have "reverseOf c = Some d \<Longrightarrow> \<not> perpendicular c d" for c d
    by (auto simp: perpendicular_def horizontal_def vertical_def reverseOf_def split: if_splits)
  ultimately show ?thesis
    by (auto simp: handleKey_char split: option.splits)
qed

theorem handleKey_only_perpendicular_witness:
  "handleKey ''ArrowUp'' scenario_snake \<noteq> scenario_snake \<and>
   handleKey ''ArrowUp'' scenario_snake = scenario_snake\<lparr>nextDir := ''up''\<rparr> \<and>
   keymap scenario_snake ''w'' = None \<and> handleKey ''w'' scenario_snake = scenario_snake \<and>
   keymap scenario_snake ''ArrowLeft'' = Some ''left'' \<and>
   reverseOf (dir scenario_snake) = Some ''left'' \<and>
   handleKey ''ArrowLeft'' scenario_snake = scenario_snake \<and>
   keymap scenario_snake ''ArrowRight'' = Some (dir scenario_snake) \<and>
   handleKey ''ArrowRight'' scenario_snake = scenario_snake"
proof -
  have k1: "keymap scenario_snake ''ArrowUp'' = Some ''up''"
    and k2: "keymap scenario_snake ''w'' = None"
    and k3: "keymap scenario_snake ''ArrowLeft'' = Some ''left''"
    and k4: "keymap scenario_snake ''ArrowRight'' = Some (dir scenario_snake)"
    and d: "dir scenario_snake = ''right''"
    and n: "nextDir scenario_snake = ''right''"
    by (simp_all add: scenario_snake_def new_Snake_def snake1_keymap_def)
  have p: "perpendicular (dir scenario_snake) ''up''"
    by (simp add: d perpendicular_def horizontal_def vertical_def)
  have r: "reverseOf (dir scenario_snake) = Some ''left''"
    by (simp add: d reverseOf_def)
  note up = handleKey_only_perpendicular [of "''ArrowUp''" scenario_snake, THEN conjunct1]
  have a: "handleKey ''ArrowUp'' scenario_snake = scenario_snake\<lparr>nextDir := ''up''\<rparr>"
    unfolding up k1 using p by simp
  have "nextDir (handleKey ''ArrowUp'' scenario_snake) \<noteq> nextDir scenario_snake"
    unfolding a n by simp
  then have b: "handleKey ''ArrowUp'' scenario_snake \<noteq> scenario_snake"
    by metis
  have c: "handleKey ''w'' scenario_snake = scenario_snake"
    using handleKey_only_perpendicular [of "''w''" scenario_snake] k2 by blast
  have e: "handleKey ''ArrowLeft'' scenario_snake = scenario_snake"
    using handleKey_only_perpendicular [of "''ArrowLeft''" scenario_snake] k3 r by blast
  have f: "handleKey ''ArrowRight'' scenario_snake = scenario_snake"
    using handleKey_only_perpendicular [of "''ArrowRight''" scenario_snake] k4 by blast
  from a b c e f k2 k3 k4 r show ?thesis
    by blast
qed

subsection \<open>Moving\<close>

lemma newHead_cardinal: "cardinal d \<Longrightarrow> newHead d h = Some (offset d h)"
  by (auto simp: cardinal_def horizontal_def vertical_def newHead_def offset_def)

lemma randomMove_cardinal:
  "cardinal nd \<Longrightarrow> \<exists>d. randomMove nd r = Some d \<and> perpendicular nd d"
  by (auto simp: cardinal_def horizontal_def vertical_def randomMove_def perpendicular_def Let_def)

lemma perpendicular_cardinal: "perpendicular c d \<Longrightarrow> cardinal d"
  by (auto simp: cardinal_def perpendicular_def)

lemma determineNextMove_ok:
  assumes "cardinal (nextDir s)"
  shows "\<exists>s1 i1. determineNextMove rnd i s = Inr (s1, i1) \<and> dir s1 = nextDir s1 \<and>
    cardinal (dir s1) \<and> parts s1 = parts s \<and> growBy s1 = growBy s \<and>
    (cls s \<noteq> ImpatientSnake \<longrightarrow> s1 = s\<lparr>dir := nextDir s\<rparr> \<and> i1 = i)"
proof (cases "cls s = ImpatientSnake \<and> length (pastMoves s) \<ge> sameMoves s \<and> checkPastMovesAllSame s")
  case True
  from randomMove_cardinal [OF assms] obtain d where
    d: "randomMove (nextDir s) (rnd i) = Some d" "perpendicular (nextDir s) d"
    by blast
  then have "cardinal d" by (simp add: perpendicular_cardinal)
  with True d show ?thesis
    by (simp add: determineNextMove_def Let_def)
next
  case False
  with assms show ?thesis
    by (auto simp: determineNextMove_def Let_def)
qed

subsection \<open>The impatient snake\<close>

lemma js_slice_end: "n \<le> length xs \<Longrightarrow> js_slice (int (length xs) - int n) xs = window n xs"
  by (simp add: js_slice_def window_def Let_def nat_diff_distrib')

lemma all_eq_head_iff: "(case w of [] \<Rightarrow> True | d0 # ds \<Rightarrow> list_all (\<lambda>d. d = d0) w) \<longleftrightarrow> allIdentical w"
proof (cases w)
  case Nil
  then show ?thesis by (simp add: allIdentical_def)
next
  case (Cons d0 ds)
  have "(\<forall>d \<in> set w. d = d0) \<longleftrightarrow> (\<forall>a \<in> set w. \<forall>b \<in> set w. a = b)"
    using Cons by (metis list.set_intros(1))
  with Cons show ?thesis
    by (simp add: allIdentical_def list_all_iff)
qed

lemma allIdentical_const: "\<forall>d \<in> set w. d = c \<Longrightarrow> allIdentical w"
  unfolding allIdentical_def by metis

lemma checkPastMovesAllSame_iff:
  "sameMoves s \<le> length (pastMoves s) \<Longrightarrow>
   checkPastMovesAllSame s \<longleftrightarrow> allIdentical (window (sameMoves s) (pastMoves s))"
  by (simp add: checkPastMovesAllSame_def Let_def js_slice_end all_eq_head_iff)

lemma perpendicular_neq: "perpendicular c d \<Longrightarrow> c \<noteq> d"
  by (auto simp: perpendicular_def horizontal_def vertical_def)

lemma perpendicular_up: "perpendicular ''up'' d \<Longrightarrow> d = ''left'' \<or> d = ''right''"
  by (auto simp: perpendicular_def horizontal_def vertical_def)

lemma window_snoc: "0 < n \<Longrightarrow> window n (xs @ [a]) = window (n - 1) xs @ [a]"
  by (cases n) (simp_all add: window_def)

lemma not_allIdentical_snoc:
  assumes "w \<noteq> []" and "\<forall>d \<in> set w. d = c" and "c \<noteq> a"
  shows "\<not> allIdentical (w @ [a])"
proof -
  from assms(1) obtain e where "e \<in> set w" by (cases w) auto
  with assms(2) have "c \<in> set (w @ [a])" by auto
  moreover have "a \<in> set (w @ [a])" by simp
  ultimately show ?thesis using assms(3) unfolding allIdentical_def by blast
qed

text \<open>C7, amended: in the impatient snake every resolved direction is appended to
  \<open>pastMoves\<close> after it is resolved. Whenever \<open>pastMoves\<close> has at least \<open>sameMoves\<close>
  (8) entries and the last 8 are identical, \<open>nextDir\<close> is overridden by a direction
  drawn at random among the two perpendicular to the current \<open>nextDir\<close> (not to
  \<open>dir\<close>) before it is applied; otherwise \<open>nextDir\<close> is applied as it is. In
  particular, when the last 8 entries are up and \<open>nextDir\<close> is up as well (no turn
  has been requested), \<open>nextDir\<close> is overridden to left or right and the last 9
  entries of \<open>pastMoves\<close> are then not identical.\<close>

theorem impatient_override:
  assumes "cls s = ImpatientSnake" and "cardinal (nextDir s)"
  shows "\<exists>s' i'. determineNextMove rnd i s = Inr (s', i') \<and>
     dir s' = nextDir s' \<and> pastMoves s' = pastMoves s @ [dir s'] \<and>
     (sameMoves s \<le> length (pastMoves s) \<and> allIdentical (window (sameMoves s) (pastMoves s)) \<longrightarrow>
        randomMove (nextDir s) (rnd i) = Some (nextDir s') \<and> perpendicular (nextDir s) (nextDir s')) \<and>
     (\<not> (sameMoves s \<le> length (pastMoves s) \<and> allIdentical (window (sameMoves s) (pastMoves s))) \<longrightarrow>
        nextDir s' = nextDir s) \<and>
     (sameMoves s = 8 \<and> 8 \<le> length (pastMoves s) \<and>
      (\<forall>d \<in> set (window 8 (pastMoves s)). d = ''up'') \<and> nextDir s = ''up'' \<longrightarrow>
        (nextDir s' = ''left'' \<or> nextDir s' = ''right'') \<and>
        \<not> allIdentical (window 9 (pastMoves s')))"
proof (cases "sameMoves s \<le> length (pastMoves s) \<and> allIdentical (window (sameMoves s) (pastMoves s))")
  case True
  then have c: "checkPastMovesAllSame s" by (simp add: checkPastMovesAllSame_iff)
  from randomMove_cardinal [OF assms(2)] obtain d where
    d: "randomMove (nextDir s) (rnd i) = Some d" "perpendicular (nextDir s) d"
    by blast
  let ?s' = "s\<lparr>nextDir := d, dir := d, pastMoves := pastMoves s @ [d]\<rparr>"
  have det: "determineNextMove rnd i s = Inr (?s', i + 1)"
    using assms(1) True c d(1) by (simp add: determineNextMove_def Let_def)
  have last: "(nextDir ?s' = ''left'' \<or> nextDir ?s' = ''right'') \<and>
        \<not> allIdentical (window 9 (pastMoves ?s'))"
    if h: "sameMoves s = 8" "8 \<le> length (pastMoves s)"
      "\<forall>d \<in> set (window 8 (pastMoves s)). d = ''up''" "nextDir s = ''up''"
  proof -
    have lr: "d = ''left'' \<or> d = ''right''"
      using d(2) h(4) by (simp add: perpendicular_up)
    have ne: "window 8 (pastMoves s) \<noteq> []"
      using h(2) by (simp add: window_def)
    have "''up'' \<noteq> d" using lr by auto
    with ne h(3) have "\<not> allIdentical (window 8 (pastMoves s) @ [d])"
      by (rule not_allIdentical_snoc)
    then have "\<not> allIdentical (window 9 (pastMoves s @ [d]))"
      by (simp add: window_snoc)
    with lr show ?thesis by simp
  qed
  show ?thesis
    using det True d last by auto
next
  case False
  let ?s' = "s\<lparr>dir := nextDir s, pastMoves := pastMoves s @ [nextDir s]\<rparr>"
  have "\<not> (sameMoves s \<le> length (pastMoves s) \<and> checkPastMovesAllSame s)"
    using False by (auto simp: checkPastMovesAllSame_iff)
  then have det: "determineNextMove rnd i s = Inr (?s', i)"
    using assms(1) by (auto simp: determineNextMove_def Let_def)
  have "\<not> (sameMoves s = 8 \<and> 8 \<le> length (pastMoves s) \<and>
      (\<forall>d \<in> set (window 8 (pastMoves s)). d = ''up''))"
    using False allIdentical_const [of "window 8 (pastMoves s)" "''up''"] by metis
  with det False show ?thesis by auto
qed

theorem impatient_override_witness:
  "cls (bored_snake\<lparr>nextDir := ''up''\<rparr>) = ImpatientSnake \<and>
   cardinal (nextDir (bored_snake\<lparr>nextDir := ''up''\<rparr>)) \<and>
   sameMoves (bored_snake\<lparr>nextDir := ''up''\<rparr>) = 8 \<and>
   window 8 (pastMoves (bored_snake\<lparr>nextDir := ''up''\<rparr>)) =
     [''up'', ''up'', ''up'', ''up'', ''up'', ''up'', ''up'', ''up''] \<and>
   (\<exists>s' i'. determineNextMove quarter_draws 0 (bored_snake\<lparr>nextDir := ''up''\<rparr>) = Inr (s', i') \<and>
      (nextDir s' = ''left'' \<or> nextDir s' = ''right'') \<and> dir s' = nextDir s' \<and>
      pastMoves s' = pastMoves bored_snake @ [dir s'] \<and>
      \<not> allIdentical (window 9 (pastMoves s'))) \<and>
   cls snake1 = ImpatientSnake \<and> cardinal (nextDir snake1) \<and>
   \<not> sameMoves snake1 \<le> length (pastMoves snake1) \<and>
   (\<exists>s' i'. determineNextMove quarter_draws 0 snake1 = Inr (s', i') \<and>
      nextDir s' = ''right'' \<and> dir s' = ''right'' \<and> pastMoves s' = [''right'', ''right''])"
proof -
  let ?b = "bored_snake\<lparr>nextDir := ''up''\<rparr>"
  have a: "cls ?b = ImpatientSnake" and b: "cardinal (nextDir ?b)"
    and c: "sameMoves ?b = 8" "nextDir ?b = ''up''" "8 \<le> length (pastMoves ?b)"
      "pastMoves ?b = pastMoves bored_snake"
    and w: "window 8 (pastMoves ?b) = [''up'', ''up'', ''up'', ''up'', ''up'', ''up'', ''up'', ''up'']"
    by (simp_all add: bored_snake_def cardinal_def vertical_def window_def)
  have u: "\<forall>d \<in> set (window 8 (pastMoves ?b)). d = ''up''"
    unfolding w by simp
  from impatient_override [OF a b, of quarter_draws 0] obtain s' i' where
    m: "determineNextMove quarter_draws 0 ?b = Inr (s', i')" "dir s' = nextDir s'"
      "pastMoves s' = pastMoves ?b @ [dir s']"
      "nextDir s' = ''left'' \<or> nextDir s' = ''right''"
      "\<not> allIdentical (window 9 (pastMoves s'))"
    using c u by blast
  then have first: "\<exists>s' i'. determineNextMove quarter_draws 0 ?b = Inr (s', i') \<and>
      (nextDir s' = ''left'' \<or> nextDir s' = ''right'') \<and> dir s' = nextDir s' \<and>
      pastMoves s' = pastMoves bored_snake @ [dir s'] \<and>
      \<not> allIdentical (window 9 (pastMoves s'))"
    using c(4) by auto
  have a1: "cls snake1 = ImpatientSnake" and b1: "cardinal (nextDir snake1)"
    and c1: "\<not> sameMoves snake1 \<le> length (pastMoves snake1)" "nextDir snake1 = ''right''"
      "pastMoves snake1 = [''right'']"
    by (simp_all add: snake1_def new_ImpatientSnake_def new_Snake_def cardinal_def horizontal_def)
  from impatient_override [OF a1 b1, of quarter_draws 0] obtain s1 i1 where
    m1: "determineNextMove quarter_draws 0 snake1 = Inr (s1, i1)" "dir s1 = nextDir s1"
      "pastMoves s1 = pastMoves snake1 @ [dir s1]" "nextDir s1 = nextDir snake1"
    using c1(1) by blast
  then have second: "\<exists>s' i'. determineNextMove quarter_draws 0 snake1 = Inr (s', i') \<and>
      nextDir s' = ''right'' \<and> dir s' = ''right'' \<and> pastMoves s' = [''right'', ''right'']"
    using c1 by simp
  from a b c(1) w first a1 b1 c1(1) second show ?thesis
    by blast
qed

text \<open>C7, as the specification states it: after 8 resolved ups \<open>nextDir\<close> is
  overridden to left or right before the 9th resolution, and \<open>pastMoves\<close> never has 9
  identical entries in a row. The snake below has resolved up 8 times and a turn to
  the left has been requested (\<open>nextDir\<close> is left, \<open>dir\<close> is up). The override is
  perpendicular to left: with a draw of one quarter it is up, the direction of the
  last 8 moves, which becomes the 9th up in a row.\<close>

theorem ninth_up_after_requested_turn:
  "cls bored_snake = ImpatientSnake \<and> dir bored_snake = ''up'' \<and> nextDir bored_snake = ''left'' \<and>
   pastMoves bored_snake = [''right'', ''up'', ''up'', ''up'', ''up'', ''up'', ''up'', ''up'', ''up''] \<and>
   determineNextMove quarter_draws 0 bored_snake =
     Inr (bored_snake\<lparr>nextDir := ''up'',
            pastMoves := [''right'', ''up'', ''up'', ''up'', ''up'', ''up'', ''up'', ''up'', ''up'', ''up'']\<rparr>, 1)"
  by (simp add: bored_snake_def determineNextMove_def checkPastMovesAllSame_def js_slice_def
      randomMove_def quarter_draws_def Let_def)

text \<open>The snake of the counterexample is reached in the game: a new impatient snake
  at (20,28) moving right, the key for up, eight moves, the key for left.\<close>

lemma bored_snake_reachable:
  "moves quarter_draws 8 0
     (handleKey ''ArrowUp'' (new_ImpatientSnake ''yellow'' snake1_keymap (new_Point 20 28) ''right''))
   = Inr (bored_snake\<lparr>nextDir := ''up''\<rparr>, 0) \<and>
   handleKey ''ArrowLeft'' (bored_snake\<lparr>nextDir := ''up''\<rparr>) = bored_snake"
  by (simp add: eval_nat_numeral move_def head_def determineNextMove_def checkPastMovesAllSame_def
      js_slice_def newHead_def Let_def new_Point_def handleKey_def checkIsNinetyDegree_def
      changeDir_def new_ImpatientSnake_def new_Snake_def snake1_keymap_def bored_snake_def)

subsection \<open>The move of every class\<close>





subsection \<open>Refilling the food\<close>

text \<open>A pellet has no \<^verbatim>\<open>x\<close> and no \<^verbatim>\<open>y\<close> of its own, so the test of
  \<^verbatim>\<open>isPelletOnSnake\<close> is never true, every round of the loop adds its pellet, and
  the loop ends after as many rounds as pellets are missing.\<close>

lemma isPelletOnSnake_never: "isPelletOnSnake g p = False"
  by (simp add: isPelletOnSnake_def contains_def list_ex_iff)

lemma refillFood_step:
  "length (food g) < numFood g \<Longrightarrow>
   refillFood rnd i g =
     refillFood rnd (i + 2) (g\<lparr>food := food g @ [Pellet_newRandom (rnd i) (rnd (i + 1))]\<rparr>)"
  by (subst refillFood.simps) (simp add: isPelletOnSnake_never Let_def)

lemma refillFood_done: "\<not> length (food g) < numFood g \<Longrightarrow> refillFood rnd i g = Some (g, i)"
  by (subst refillFood.simps) simp

lemma refillFood_returns:
  "refillFood rnd i g =
     Some (g\<lparr>food := food g @
              map (\<lambda>k. Pellet_newRandom (rnd (i + 2 * k)) (rnd (i + 2 * k + 1)))
                [0..<numFood g - length (food g)]\<rparr>,
           i + 2 * (numFood g - length (food g)))"
proof (induction "numFood g - length (food g)" arbitrary: g i)
  case 0
  then have "\<not> length (food g) < numFood g" by simp
  then have "refillFood rnd i g = Some (g, i)" by (rule refillFood_done)
  with 0 [symmetric] show ?case by simp
next
  case (Suc n)
  let ?p = "Pellet_newRandom (rnd i) (rnd (i + 1))"
  let ?g = "g\<lparr>food := food g @ [?p]\<rparr>"
  from Suc(2) have lt: "length (food g) < numFood g" by simp
  from Suc(2) have n: "n = numFood ?g - length (food ?g)" by simp
  have up: "[0..<Suc n] = 0 # map Suc [0..<n]"
    by (simp add: upt_conv_Cons map_Suc_upt del: upt_Suc)
  have "refillFood rnd i g = refillFood rnd (i + 2) ?g"
    using lt by (rule refillFood_step)
  also note Suc(1) [OF n, of "i + 2"]
  finally show ?case
    unfolding n [symmetric] Suc(2) [symmetric] up
    by (simp add: comp_def)
qed

lemma randRange_bounds:
  assumes "0 \<le> r" and "r < 1" and "low < hi"
  shows "low \<le> randRange low hi r \<and> randRange low hi r < hi"
proof -
  let ?d = "real_of_int (hi - low)"
  have d: "0 < ?d" using assms(3) by simp
  have "0 \<le> r * ?d" using assms(1) d by simp
  then have lo: "0 \<le> \<lfloor>r * ?d\<rfloor>" by simp
  have "r * ?d < ?d" using assms(2) d by simp
  then have hi: "\<lfloor>r * ?d\<rfloor> < hi - low" by (simp add: floor_less_iff)
  from lo hi show ?thesis by (simp add: randRange_def)
qed

lemma Pellet_newRandom_on_board:
  assumes "0 \<le> r1" "r1 < 1" "0 \<le> r2" "r2 < 1"
  shows "1 \<le> x (pt (Pellet_newRandom r1 r2)) \<and> x (pt (Pellet_newRandom r1 r2)) < WIDTH \<and>
         1 \<le> y (pt (Pellet_newRandom r1 r2)) \<and> y (pt (Pellet_newRandom r1 r2)) < HEIGHT"
  using randRange_bounds [OF assms(1,2), of 1 WIDTH] randRange_bounds [OF assms(3,4), of 1 HEIGHT]
  by (simp add: Pellet_newRandom_def Point_newRandom_def new_Pellet_def new_Point_def Let_def
      WIDTH_def HEIGHT_def)

lemma refillFood_fills:
  assumes "length (food g) \<le> numFood g"
  shows "\<exists>g' i'. refillFood rnd i g = Some (g', i') \<and> length (food g') = numFood g' \<and>
     numFood g' = numFood g \<and> snake g' = snake g \<and> timerId g' = timerId g"
  using assms by (simp add: refillFood_returns)

lemma refillFood_added_on_board:
  assumes "\<forall>n. 0 \<le> rnd n \<and> rnd n < 1"
  shows "\<exists>g' i' added. refillFood rnd i g = Some (g', i') \<and> food g' = food g @ added \<and>
     (\<forall>p \<in> set added. 1 \<le> x (pt p) \<and> x (pt p) < WIDTH \<and> 1 \<le> y (pt p) \<and> y (pt p) < HEIGHT)"
  using assms by (auto simp: refillFood_returns Pellet_newRandom_on_board)

text \<open>C6: when \<open>refillFood\<close> returns, the board should hold \<open>numFood\<close> pellets, each
  new one with x in [1, WIDTH) and y in [1, HEIGHT) and on no cell of the snake. The
  number and the ranges hold (\<open>refillFood_fills\<close>, \<open>refillFood_added_on_board\<close>). The
  last part fails: in the program's game, with the snake at (20,20) and draws that
  give (20,20) first, the first new pellet is put on the snake's head.\<close>

theorem refillFood_puts_pellet_on_snake:
  "parts (snake game) = [new_Point 20 20] \<and> food game = [] \<and> numFood game = 3 \<and>
   refillFood head_draws 0 game =
     Some (game\<lparr>food := [new_Pellet 20 20, new_Pellet 10 10, new_Pellet 5 5]\<rparr>, 6) \<and>
   contains (snake game) (PointObj (pt (new_Pellet 20 20)))"
  by (simp add: refillFood_returns game_def new_Game_def snake1_def new_ImpatientSnake_def
      new_Snake_def head_draws_def Pellet_newRandom_def Point_newRandom_def randRange_def
      new_Pellet_def new_Point_def WIDTH_def HEIGHT_def contains_def upt_conv_Cons Let_def
      del: upt_Suc)

text \<open>C10: the test of a new pellet reads the snake and not the food, so it gives the
  same result whatever pellets are on the board; and there are draws with which
  \<open>refillFood\<close> puts a new pellet at (10,10), where a pellet already is.\<close>

theorem pellet_test_ignores_food:
  "isPelletOnSnake (g\<lparr>food := f1\<rparr>) p = isPelletOnSnake (g\<lparr>food := f2\<rparr>) p \<and>
   refillFood third_draws 0 (game\<lparr>food := [new_Pellet 10 10, new_Pellet 5 5]\<rparr>) =
     Some (game\<lparr>food := [new_Pellet 10 10, new_Pellet 5 5, new_Pellet 10 10]\<rparr>, 2)"
  by (simp add: isPelletOnSnake_def refillFood_returns game_def new_Game_def
      third_draws_def Pellet_newRandom_def Point_newRandom_def randRange_def
      new_Pellet_def new_Point_def WIDTH_def HEIGHT_def Let_def)

subsection \<open>The end of the game\<close>

lemma crashed_nextDir: "crashed (s\<lparr>nextDir := nd\<rparr>) = crashed s"
  by (simp add: crashed_def checkCrashIntoWall_def checkCrashIntoSelf_def head_def)

lemma tick_crashed:
  assumes "crashed (snake g)"
  shows "tick rnd (g, b, i) = Some (Inr (g, stopBrowser g b, i))"
  using assms by (auto simp: tick_def crashed_def stopBrowser_def Let_def)

lemma stopBrowser_idem: "stopBrowser g (stopBrowser g b) = stopBrowser g b"
  by (simp add: stopBrowser_def removeEventListener_def clearInterval_def split: option.splits)

lemma stopBrowser_snake: "stopBrowser (g\<lparr>snake := s\<rparr>) b = stopBrowser g b"
  by (simp add: stopBrowser_def)

lemma bound_callbacks_stopBrowser: "bound_callbacks b \<Longrightarrow> bound_callbacks (stopBrowser g b)"
  by (auto simp: bound_callbacks_def stopBrowser_def removeEventListener_def clearInterval_def
      list_all_iff split: option.splits)

lemma stopBrowser_cleared: "\<forall>t \<in> set (intervals (stopBrowser g b)). Some (fst t) \<noteq> timerId g"
  by (auto simp: stopBrowser_def removeEventListener_def clearInterval_def split: option.splits)

lemma invokeAll_ticks:
  assumes "crashed (snake g)" and "stopBrowser g b = b" and "list_all isBoundTick fs"
  shows "invokeAll rnd fs arg (g, b, i) = Some (Inr (g, b, i))"
  using assms(3)
proof (induction fs)
  case Nil
  show ?case by simp
next
  case (Cons f fs)
  then obtain n where f: "f = Bound n TickMethod"
    by (cases f rule: isBoundTick.cases) auto
  have "invoke rnd f arg (g, b, i) = Some (Inr (g, b, i))"
    unfolding f using tick_crashed [OF assms(1), of rnd b i] assms(2) by simp
  with Cons show ?case by simp
qed

lemma handleKey_nextDir_only: "\<exists>nd. handleKey key s = s\<lparr>nextDir := nd\<rparr>"
proof (cases "handleKey key s = s")
  case True
  then have "handleKey key s = s\<lparr>nextDir := nextDir s\<rparr>" by simp
  then show ?thesis by blast
next
  case False
  then show ?thesis
    by (auto simp: handleKey_char split: option.splits if_splits)
qed

lemma invokeAll_keys:
  assumes "list_all isBoundKeyListener fs"
  shows "\<exists>nd. invokeAll rnd fs (Some key) (g\<lparr>snake := (snake g)\<lparr>nextDir := n0\<rparr>\<rparr>, b, i) =
     Some (Inr (g\<lparr>snake := (snake g)\<lparr>nextDir := nd\<rparr>\<rparr>, b, i))"
  using assms
proof (induction fs arbitrary: n0)
  case Nil
  show ?case by auto
next
  case (Cons f fs)
  then obtain n where f: "f = Bound n KeyListenerMethod"
    by (cases f rule: isBoundKeyListener.cases) auto
  obtain nd where nd: "handleKey key ((snake g)\<lparr>nextDir := n0\<rparr>) = (snake g)\<lparr>nextDir := n0\<rparr>\<lparr>nextDir := nd\<rparr>"
    using handleKey_nextDir_only by blast
  have "invoke rnd f (Some key) (g\<lparr>snake := (snake g)\<lparr>nextDir := n0\<rparr>\<rparr>, b, i) =
      Some (Inr (g\<lparr>snake := (snake g)\<lparr>nextDir := nd\<rparr>\<rparr>, b, i))"
    unfolding f by (simp add: keyListener_def nd)
  moreover from Cons have "\<exists>nd'. invokeAll rnd fs (Some key) (g\<lparr>snake := (snake g)\<lparr>nextDir := nd\<rparr>\<rparr>, b, i) =
     Some (Inr (g\<lparr>snake := (snake g)\<lparr>nextDir := nd'\<rparr>\<rparr>, b, i))"
    by simp
  ultimately show ?case by simp
qed

lemma step_stopped:
  assumes "crashed (snake g)" and "stopBrowser g b = b" and "bound_callbacks b"
  shows "\<exists>nd. step rnd ev (g\<lparr>snake := (snake g)\<lparr>nextDir := n0\<rparr>\<rparr>, b, i) =
     Some (Inr (g\<lparr>snake := (snake g)\<lparr>nextDir := nd\<rparr>\<rparr>, b, i))"
proof (cases ev)
  case (TimerFires n)
  let ?g = "g\<lparr>snake := (snake g)\<lparr>nextDir := n0\<rparr>\<rparr>"
  have c: "crashed (snake ?g)" using assms(1) by (simp add: crashed_nextDir)
  have s: "stopBrowser ?g b = b" using assms(2) by (simp add: stopBrowser_def)
  have l: "list_all isBoundTick (map (\<lambda>t. fst (snd t)) (filter (\<lambda>t. fst t = n) (intervals b)))"
    using assms(3) by (auto simp: bound_callbacks_def list_all_iff)
  from invokeAll_ticks [OF c s l] TimerFires show ?thesis
    by auto
next
  case (KeyDown key)
  have l: "list_all isBoundKeyListener
      (listenersOf Document ''keydown'' b @ listenersOf Window ''keydown'' b)"
    using assms(3) by (auto simp: bound_callbacks_def listenersOf_def list_all_iff)
  from invokeAll_keys [OF l] KeyDown show ?thesis
    by simp
qed

lemma run_stopped:
  assumes "crashed (snake g)" and "stopBrowser g b = b" and "bound_callbacks b"
  shows "\<exists>nd. run rnd evs (g\<lparr>snake := (snake g)\<lparr>nextDir := n0\<rparr>\<rparr>, b, i) =
     Some (Inr (g\<lparr>snake := (snake g)\<lparr>nextDir := nd\<rparr>\<rparr>, b, i))"
proof (induction evs arbitrary: n0)
  case Nil
  show ?case by auto
next
  case (Cons ev evs)
  from step_stopped [OF assms] obtain nd where
    "step rnd ev (g\<lparr>snake := (snake g)\<lparr>nextDir := n0\<rparr>\<rparr>, b, i) =
     Some (Inr (g\<lparr>snake := (snake g)\<lparr>nextDir := nd\<rparr>\<rparr>, b, i))"
    by blast
  with Cons [of nd] show ?case by simp
qed

lemma started_game_eq:
  "started_game =
     (\<lparr>snake = wall_snake, food = [], numFood = 3, timerId = Some 1\<rparr>,
      \<lparr>listeners = [(Document, ''keydown'', Bound 0 KeyListenerMethod)],
       intervals = [(1, Bound 1 TickMethod, 400)], nextFunc = 2, nextTimer = 2\<rparr>)"
  by (simp add: started_game_def start_def bind_def addEventListener_def setInterval_def
      new_Game_def new_Browser_def GAME_DELAY_MS_def Let_def)

lemma wall_snake_crashed: "crashed wall_snake"
  by (simp add: crashed_def wall_snake_def new_Snake_def checkCrashIntoWall_def head_def
      isOutOfBound_def new_Point_def WIDTH_def)

text \<open>C3: when the snake left by the previous tick has crashed into the wall or into
  itself, the tick returns the game as it was: no move, no pellet eaten, no pellet
  added and no draw taken, so the body, \<open>dir\<close>, \<open>nextDir\<close>, \<open>growBy\<close> and the food are
  unchanged. The timer of the game is cancelled. From then on, whatever timers fire
  and keys go down, the game stays as it is but for \<open>nextDir\<close>: no move is ever made
  again.\<close>

theorem crashed_tick_is_terminal:
  assumes "crashed (snake g)"
  shows "tick rnd (g, b, i) = Some (Inr (g, stopBrowser g b, i)) \<and>
    (\<forall>t \<in> set (intervals (stopBrowser g b)). Some (fst t) \<noteq> timerId g) \<and>
    (bound_callbacks b \<longrightarrow>
       (\<forall>evs. \<exists>nd. run rnd evs (g, stopBrowser g b, i) =
          Some (Inr (g\<lparr>snake := (snake g)\<lparr>nextDir := nd\<rparr>\<rparr>, stopBrowser g b, i))))"
proof -
  have g: "g\<lparr>snake := (snake g)\<lparr>nextDir := nextDir (snake g)\<rparr>\<rparr> = g"
    by simp
  have "\<exists>nd. run rnd evs (g, stopBrowser g b, i) =
          Some (Inr (g\<lparr>snake := (snake g)\<lparr>nextDir := nd\<rparr>\<rparr>, stopBrowser g b, i))"
    if "bound_callbacks b" for evs
    using run_stopped [OF assms stopBrowser_idem bound_callbacks_stopBrowser [OF that],
        where ?n0.0 = "nextDir (snake g)"]
    unfolding g .
  with tick_crashed [OF assms] stopBrowser_cleared show ?thesis
    by blast
qed

theorem crashed_tick_is_terminal_witness:
  "crashed (snake (fst started_game)) \<and> bound_callbacks (snd started_game) \<and>
   tick quarter_draws (fst started_game, snd started_game, 0) =
     Some (Inr (fst started_game, stopBrowser (fst started_game) (snd started_game), 0)) \<and>
   intervals (stopBrowser (fst started_game) (snd started_game)) = [] \<and>
   (\<exists>nd. run quarter_draws [KeyDown ''ArrowUp'', TimerFires 1]
           (fst started_game, stopBrowser (fst started_game) (snd started_game), 0) =
         Some (Inr ((fst started_game)\<lparr>snake := (snake (fst started_game))\<lparr>nextDir := nd\<rparr>\<rparr>,
                    stopBrowser (fst started_game) (snd started_game), 0)))"
proof -
  have c: "crashed (snake (fst started_game))"
    using wall_snake_crashed by (simp add: started_game_eq)
  have b: "bound_callbacks (snd started_game)"
    by (simp add: started_game_eq bound_callbacks_def)
  have e: "intervals (stopBrowser (fst started_game) (snd started_game)) = []"
    by (simp add: started_game_eq stopBrowser_def clearInterval_def removeEventListener_def)
  from crashed_tick_is_terminal [OF c, of quarter_draws "snd started_game" 0] b c e
  show ?thesis
    by blast
qed

text \<open>C8: the tick that ends the game should cancel the timer and detach the
  \<^verbatim>\<open>keydown\<close> listener that \<^verbatim>\<open>start\<close> registered, so that no key reaches
  \<^verbatim>\<open>handleKey\<close> afterwards. The timer is cancelled; the listener is not detached:
  \<^verbatim>\<open>start\<close> put a bound function on the document, and the tick asks the window
  to remove the method itself. In the started game of a snake on the wall, after the
  tick that ends the game, the key for up still changes \<open>nextDir\<close> from right to
  up.\<close>

theorem listener_survives_terminal_tick:
  "crashed (snake (fst started_game)) \<and>
   run quarter_draws [TimerFires 1, KeyDown ''ArrowUp''] (fst started_game, snd started_game, 0) =
     Some (Inr ((fst started_game)\<lparr>snake := wall_snake\<lparr>nextDir := ''up''\<rparr>\<rparr>,
                (snd started_game)\<lparr>intervals := []\<rparr>, 0)) \<and>
   listeners ((snd started_game)\<lparr>intervals := []\<rparr>) = [(Document, ''keydown'', Bound 0 KeyListenerMethod)] \<and>
   nextDir wall_snake = ''right''"
proof -
  have t: "tick quarter_draws (fst started_game, snd started_game, 0) =
      Some (Inr (fst started_game, (snd started_game)\<lparr>intervals := []\<rparr>, 0))"
    using wall_snake_crashed
    by (simp add: started_game_eq tick_crashed stopBrowser_def clearInterval_def
        removeEventListener_def)
  have k: "handleKey ''ArrowUp'' wall_snake = wall_snake\<lparr>nextDir := ''up''\<rparr>"
    by (simp add: handleKey_char wall_snake_def new_Snake_def snake1_keymap_def perpendicular_def
        horizontal_def vertical_def)
  show ?thesis
    using wall_snake_crashed t k
    by (simp add: started_game_eq listenersOf_def keyListener_def)
       (simp add: wall_snake_def new_Snake_def)
qed

subsection \<open>The snakes of the game\<close>

text \<open>A constructor given one of the four directions makes a well-formed snake, and
  keys, moves, meals and ticks keep the snake well-formed. On such a snake no method
  throws and none stores \<^verbatim>\<open>undefined\<close>, and the tick always returns.\<close>

lemma new_Snake_wellFormed:
  assumes "cardinal d"
  shows "wellFormed (new_Snake c km p d)" and "wellFormed (new_RandomGrowthSnake c km p d)"
    and "wellFormed (new_ImpatientSnake c km p d)"
  using assms
  by (simp_all add: wellFormed_def new_Snake_def new_RandomGrowthSnake_def new_ImpatientSnake_def)

lemma handleKey_wellFormed:
  assumes "wellFormed s"
  shows "wellFormed (handleKey key s)"
proof (cases "handleKey key s = s")
  case True
  with assms show ?thesis by simp
next
  case False
  then obtain d where "perpendicular (dir s) d" "handleKey key s = s\<lparr>nextDir := d\<rparr>"
    by (auto simp: handleKey_char split: option.splits if_splits)
  with assms show ?thesis
    by (simp add: wellFormed_def perpendicular_cardinal)
qed

lemma move_wellFormed:
  assumes "wellFormed s"
  shows "\<exists>s' i'. move rnd i s = Inr (s', i') \<and> wellFormed s'"
proof -
  from assms obtain h t where p: "parts s = h # t"
    by (cases "parts s") (auto simp: wellFormed_def)
  from assms have "cardinal (nextDir s)" by (simp add: wellFormed_def)
  from determineNextMove_ok [OF this] obtain s1 i1 where
    s1: "determineNextMove rnd i s = Inr (s1, i1)" "dir s1 = nextDir s1" "cardinal (dir s1)"
      "parts s1 = parts s"
    by blast
  have hd: "head s = Some h" using p by (simp add: head_def)
  have nh: "newHead (dir s1) h = Some (offset (dir s1) h)"
    using s1(3) by (rule newHead_cardinal)
  show ?thesis
    using hd s1 nh p by (auto simp: move_def Let_def wellFormed_def)
qed

lemma eats_wellFormed:
  assumes "wellFormed s"
  shows "\<exists>s' p i'. eats rnd i fd s = Inr (s', p, i') \<and> wellFormed s'"
proof -
  from assms obtain h t where p: "parts s = h # t"
    by (cases "parts s") (auto simp: wellFormed_def)
  then have hd: "head s = Some h" by (simp add: head_def)
  show ?thesis
    using assms hd
    by (auto simp: eats_def growSnakeBy_def Let_def wellFormed_def split: option.splits)
qed

lemma removeFood_snake: "snake (removeFood p g) = snake g"
  by (simp add: removeFood_def)

lemma tick_wellFormed:
  assumes "wellFormed (snake g)"
  shows "\<exists>g' b' i'. tick rnd (g, b, i) = Some (Inr (g', b', i')) \<and> wellFormed (snake g')"
proof -
  from assms obtain h t where p: "parts (snake g) = h # t"
    by (cases "parts (snake g)") (auto simp: wellFormed_def)
  then have w: "checkCrashIntoWall (snake g) = Inr (isOutOfBound h)"
    by (simp add: checkCrashIntoWall_def head_def)
  show ?thesis
  proof (cases "isOutOfBound h \<or> checkCrashIntoSelf (snake g)")
    case True
    with w assms show ?thesis by (auto simp: tick_def Let_def)
  next
    case False
    from move_wellFormed [OF assms] obtain s1 i1 where
      m: "move rnd i (snake g) = Inr (s1, i1)" "wellFormed s1" by blast
    from eats_wellFormed [OF m(2)] obtain s2 pl i2 where
      e: "eats rnd i1 (food g) s1 = Inr (s2, pl, i2)" "wellFormed s2" by blast
    let ?g1 = "g\<lparr>snake := s2\<rparr>"
    let ?g2 = "case pl of None \<Rightarrow> ?g1 | Some q \<Rightarrow> removeFood q ?g1"
    have s: "snake ?g2 = s2"
      by (cases pl) (simp_all add: removeFood_snake)
    obtain g3 i3 where r: "refillFood rnd i2 ?g2 = Some (g3, i3)" "snake g3 = snake ?g2"
      by (simp add: refillFood_returns)
    have "tick rnd (g, b, i) = Some (Inr (g3, b, i3))"
      using w False m(1) e(1) r(1) by (simp add: tick_def Let_def)
    with r(2) s e(2) show ?thesis by simp
  qed
qed

end
